theory Spec2Isabelle
  imports Main
begin

section \<open>Packet protocol (strategy/AgentPacket.ts)\<close>

text \<open>
  The packet tags are the string literals of the union \<^verbatim>\<open>AgentPacketType\<close>.
  The first seven are \<^verbatim>\<open>AgentPacketFinishedType\<close>, the next fourteen are
  the other members listed in AgentPacket.ts, and the last four are the retriever and
  chat-model lifecycle tags that the switch of \<^verbatim>\<open>mapPacketTypeToStatus\<close>
  names in its case labels (so the union it imports holds them).
\<close>

datatype AgentPacketType =
    Tag_handleAgentEnd
  | Tag_done
  | Tag_error
  | Tag_handleChainError
  | Tag_handleLLMError
  | Tag_handleRetrieverError
  | Tag_handleAgentError
  | Tag_handleLLMStart
  | Tag_t
  | Tag_handleLLMEnd
  | Tag_handleChainEnd
  | Tag_handleChainStart
  | Tag_handleToolEnd
  | Tag_handleToolStart
  | Tag_handleAgentAction
  | Tag_handleText
  | Tag_requestHumanInput
  | Tag_starting
  | Tag_working
  | Tag_idle
  | Tag_handleToolError
  | Tag_handleRetrieverStart
  | Tag_handleRetrieverEnd
  | Tag_handleChatModelEnd
  | Tag_handleChatModelStart

datatype Severity = Warn | Human | Fatal

text \<open>
  \<^verbatim>\<open>AgentPacket\<close> is the tagged union of AgentPacket.ts, one constructor per
  variant with the variant's payload. Payloads of type \<^verbatim>\<open>any\<close>,
  \<^verbatim>\<open>Serialized\<close>, \<^verbatim>\<open>ChainValues\<close> and \<^verbatim>\<open>AgentAction\<close> are opaque to
  every function modelled here and are carried as strings; an \<^verbatim>\<open>Error\<close>
  object is carried as its message.
\<close>

datatype AgentPacket =
    P_handleLLMStart
  | P_t string
  | P_handleLLMEnd string
  | P_handleLLMError string
  | P_handleChainEnd string
  | P_handleChainError string
  | P_handleChainStart
  | P_handleToolEnd string
  | P_handleToolError string
  | P_handleToolStart string string
  | P_handleAgentAction string
  | P_handleAgentEnd string
  | P_handleText string
  | P_handleRetrieverError string
  | P_handleAgentError string
  | P_done string
  | P_error Severity string
  | P_requestHumanInput string
  | P_starting string
  | P_working string
  | P_idle string

text \<open>The \<^verbatim>\<open>type\<close> field of a packet.\<close>

fun packet_type :: "AgentPacket \<Rightarrow> AgentPacketType" where
  "packet_type P_handleLLMStart = Tag_handleLLMStart"
| "packet_type (P_t _) = Tag_t"
| "packet_type (P_handleLLMEnd _) = Tag_handleLLMEnd"
| "packet_type (P_handleLLMError _) = Tag_handleLLMError"
| "packet_type (P_handleChainEnd _) = Tag_handleChainEnd"
| "packet_type (P_handleChainError _) = Tag_handleChainError"
| "packet_type P_handleChainStart = Tag_handleChainStart"
| "packet_type (P_handleToolEnd _) = Tag_handleToolEnd"
| "packet_type (P_handleToolError _) = Tag_handleToolError"
| "packet_type (P_handleToolStart _ _) = Tag_handleToolStart"
| "packet_type (P_handleAgentAction _) = Tag_handleAgentAction"
| "packet_type (P_handleAgentEnd _) = Tag_handleAgentEnd"
| "packet_type (P_handleText _) = Tag_handleText"
| "packet_type (P_handleRetrieverError _) = Tag_handleRetrieverError"
| "packet_type (P_handleAgentError _) = Tag_handleAgentError"
| "packet_type (P_done _) = Tag_done"
| "packet_type (P_error _ _) = Tag_error"
| "packet_type (P_requestHumanInput _) = Tag_requestHumanInput"
| "packet_type (P_starting _) = Tag_starting"
| "packet_type (P_working _) = Tag_working"
| "packet_type (P_idle _) = Tag_idle"

definition AgentPacketFinishedTypes :: "AgentPacketType list" where
  "AgentPacketFinishedTypes =
     [Tag_handleAgentEnd, Tag_done, Tag_error, Tag_handleChainError,
      Tag_handleLLMError, Tag_handleRetrieverError, Tag_handleAgentError]"

text \<open>\<^verbatim>\<open>agentPacketFinishedTypesSet.has(type)\<close>\<close>

definition isAgentPacketFinishedType :: "AgentPacketType \<Rightarrow> bool" where
  "isAgentPacketFinishedType ty = (ty \<in> set AgentPacketFinishedTypes)"

text \<open>
  \<^verbatim>\<open>Array.prototype.findLast\<close>: the array is visited from its last index down to
  index 0 and the first element that satisfies the predicate is returned,
  \<^verbatim>\<open>undefined\<close> (here \<open>None\<close>) when there is none.
\<close>

definition findLast :: "('a \<Rightarrow> bool) \<Rightarrow> 'a list \<Rightarrow> 'a option" where
  "findLast P xs = List.find P (rev xs)"

text \<open>
  Decimal rendering of a length, as the template literals of the source print it.
\<close>

definition digit_char :: "nat \<Rightarrow> char" where
  "digit_char d = ''0123456789'' ! d"

fun string_of_nat :: "nat \<Rightarrow> string" where
  "string_of_nat n =
     (if n < 10 then [digit_char n] else string_of_nat (n div 10) @ [digit_char (n mod 10)])"

declare string_of_nat.simps [simp del]

text \<open>
  \<^verbatim>\<open>findFinishPacket\<close>: the last packet of a finishing type, or the synthetic
  fatal error packet built from the number of packets.
\<close>

definition findFinishPacket :: "AgentPacket list \<Rightarrow> AgentPacket" where
  "findFinishPacket packets =
     (case findLast (\<lambda>packet. isAgentPacketFinishedType (packet_type packet)) packets of
        Some packet \<Rightarrow> packet
      | None \<Rightarrow>
          P_error Fatal
            (''No result packet found in '' @ string_of_nat (length packets) @ '' packets''))"

section \<open>Status mapper (prompts/utils/mapPacketToStatus.ts)\<close>

datatype TaskStatus = Status_idle | Status_working | Status_wait | Status_done | Status_error

text \<open>
  \<^verbatim>\<open>mapPacketTypeToStatus\<close>, one equation per case label in the order of the
  switch; \<open>None\<close> is \<^verbatim>\<open>undefined\<close>. The second group of labels for
  the chat-model and retriever start and end tags (after \<^verbatim>\<open>requestHumanInput\<close>)
  repeats labels of the first working group and can never be reached, so it adds no
  equation.
\<close>

fun mapPacketTypeToStatus :: "AgentPacketType option \<Rightarrow> TaskStatus" where
  "mapPacketTypeToStatus (Some Tag_done) = Status_done"
| "mapPacketTypeToStatus (Some Tag_handleAgentEnd) = Status_done"
| "mapPacketTypeToStatus (Some Tag_handleChainEnd) = Status_done"
| "mapPacketTypeToStatus (Some Tag_error) = Status_error"
| "mapPacketTypeToStatus (Some Tag_handleLLMError) = Status_error"
| "mapPacketTypeToStatus (Some Tag_handleChainError) = Status_error"
| "mapPacketTypeToStatus (Some Tag_handleToolError) = Status_error"
| "mapPacketTypeToStatus (Some Tag_handleAgentError) = Status_error"
| "mapPacketTypeToStatus (Some Tag_working) = Status_working"
| "mapPacketTypeToStatus (Some Tag_t) = Status_working"
| "mapPacketTypeToStatus (Some Tag_handleLLMStart) = Status_working"
| "mapPacketTypeToStatus (Some Tag_handleChainStart) = Status_working"
| "mapPacketTypeToStatus (Some Tag_handleToolStart) = Status_working"
| "mapPacketTypeToStatus (Some Tag_handleAgentAction) = Status_working"
| "mapPacketTypeToStatus (Some Tag_handleRetrieverError) = Status_working"
| "mapPacketTypeToStatus (Some Tag_handleText) = Status_working"
| "mapPacketTypeToStatus (Some Tag_handleToolEnd) = Status_working"
| "mapPacketTypeToStatus (Some Tag_starting) = Status_working"
| "mapPacketTypeToStatus (Some Tag_handleLLMEnd) = Status_working"
| "mapPacketTypeToStatus (Some Tag_handleRetrieverStart) = Status_working"
| "mapPacketTypeToStatus (Some Tag_handleRetrieverEnd) = Status_working"
| "mapPacketTypeToStatus (Some Tag_handleChatModelEnd) = Status_working"
| "mapPacketTypeToStatus (Some Tag_handleChatModelStart) = Status_working"
| "mapPacketTypeToStatus (Some Tag_requestHumanInput) = Status_wait"
| "mapPacketTypeToStatus (Some Tag_idle) = Status_idle"
| "mapPacketTypeToStatus None = Status_idle"

section \<open>Graph model (the part of WaggleDanceMachine.ts that follows the status mapper)\<close>

text \<open>
  DAG.ts is not among the sources; the fields are the ones the machine reads
  (\<^verbatim>\<open>node.id\<close>, \<^verbatim>\<open>node.name\<close>, \<^verbatim>\<open>edge.sId\<close>, \<^verbatim>\<open>edge.tId\<close>,
  \<^verbatim>\<open>dag.nodes\<close>, \<^verbatim>\<open>dag.edges\<close>), and the constructor argument order
  \<^verbatim>\<open>DAGNodeClass(id, name, act, context)\<close>, \<^verbatim>\<open>DAGEdgeClass(sId, tId)\<close>.
  The fields \<^verbatim>\<open>id\<close> and \<^verbatim>\<open>context\<close> are written \<open>node_id\<close> and
  \<open>node_context\<close>.
\<close>

record DAGNode =
  node_id :: string
  name :: string
  act :: string
  node_context :: string

record DAGEdge =
  sId :: string
  tId :: string

record DAG =
  nodes :: "DAGNode list"
  edges :: "DAGEdge list"

text \<open>\<^verbatim>\<open>isGoalReached\<close>: every node is included in the completedTasks set.\<close>

definition isGoalReached :: "DAG \<Rightarrow> string set \<Rightarrow> bool" where
  "isGoalReached dag completedTasks =
     list_all (\<lambda>node. node_id node \<in> completedTasks) (nodes dag)"

text \<open>
  \<^verbatim>\<open>rootPlanId\<close> is the two-emoji string of the source (U+1F478, U+1F41D), held
  as its UTF-8 bytes.
\<close>

definition rootPlanId :: string where
  "rootPlanId = [CHR 0xF0, CHR 0x9F, CHR 0x91, CHR 0xB8, CHR 0xF0, CHR 0x9F, CHR 0x90, CHR 0x9D]"

definition initialNodes :: "string \<Rightarrow> DAGNode list" where
  "initialNodes goal =
     [\<lparr>node_id = rootPlanId, name = rootPlanId @ '' Queen Bee'',
       act = ''Planning how to achieve your goal'', node_context = goal\<rparr>]"

definition initialEdges :: "DAGEdge list" where
  "initialEdges = []"

text \<open>
  \<^verbatim>\<open>findNodesWithNoIncomingEdges\<close>: the first loop collects the target ids of
  all edges in a set, the second keeps, in order, the nodes whose id is not in it.
\<close>

definition findNodesWithNoIncomingEdges :: "DAG \<Rightarrow> DAGNode list" where
  "findNodesWithNoIncomingEdges dag =
     (let nodesWithIncomingEdges = fold (\<lambda>edge s. insert (tId edge) s) (edges dag) {}
      in filter (\<lambda>node. node_id node \<notin> nodesWithIncomingEdges) (nodes dag))"

text \<open>
  The graph built right after \<^verbatim>\<open>planTasks\<close> returns:
  \<^verbatim>\<open>new DAG([...initNodes, ...dag.nodes], [...initialEdges(), ...dag.edges, ...hookupEdges])\<close>.
\<close>

definition hookupEdges :: "DAG \<Rightarrow> DAGEdge list" where
  "hookupEdges dag =
     map (\<lambda>node. \<lparr>sId = rootPlanId, tId = node_id node\<rparr>) (findNodesWithNoIncomingEdges dag)"

definition hookup :: "string \<Rightarrow> DAG \<Rightarrow> DAG" where
  "hookup goal dag =
     \<lparr>nodes = initialNodes goal @ nodes dag,
      edges = initialEdges @ edges dag @ hookupEdges dag\<rparr>"

section \<open>The state of one run of WaggleDanceMachine\<close>

text \<open>
  What \<^verbatim>\<open>executeTask\<close> resolves with, as a JavaScript value:
  \<^verbatim>\<open>undefined\<close>, \<^verbatim>\<open>null\<close>, a boolean, a number (an integer or
  \<^verbatim>\<open>NaN\<close>), a string, or an object (opaque). \<open>truthy\<close> is the test
  \<^verbatim>\<open>!result\<close> negated: \<^verbatim>\<open>undefined\<close>, \<^verbatim>\<open>null\<close>,
  \<^verbatim>\<open>false\<close>, zero, \<^verbatim>\<open>NaN\<close> and the empty string are falsy, every
  object is truthy. Only \<open>Result_string\<close> has \<^verbatim>\<open>typeof result === "string"\<close>.
\<close>

datatype BaseResultType =
    Result_undefined
  | Result_null
  | Result_boolean bool
  | Result_number int
  | Result_NaN
  | Result_string string
  | Result_object string

fun truthy :: "BaseResultType \<Rightarrow> bool" where
  "truthy Result_undefined = False"
| "truthy Result_null = False"
| "truthy (Result_boolean b) = b"
| "truthy (Result_number n) = (n \<noteq> 0)"
| "truthy Result_NaN = False"
| "truthy (Result_string s) = (s \<noteq> [])"
| "truthy (Result_object _) = True"

datatype FirstTaskState = FTS_not_started | FTS_started | FTS_done | FTS_error

record OptimisticFirstTaskState =
  firstTaskState :: FirstTaskState
  taskId :: "string option"

text \<open>
  How the promise of \<^verbatim>\<open>run\<close> settles: it resolves with
  \<^verbatim>\<open>{results: taskResults, completedTasks}\<close> (the two shared containers of the
  state), it resolves with the planner's error, or it rejects with a thrown error.
\<close>

datatype RunResult = Resolved_Result | Resolved_Error string | Rejected string

text \<open>
  Where the body of \<^verbatim>\<open>run\<close> stands: awaiting \<^verbatim>\<open>planTasks\<close>, in the
  scheduling loop with its locals \<^verbatim>\<open>dag\<close> and \<^verbatim>\<open>toDoNodes\<close>, or settled.
\<close>

datatype Control = Planning | Scheduling DAG "DAGNode list" | Settled RunResult

text \<open>
  The closure state of one run. \<open>sentPackets\<close> are the calls of
  \<^verbatim>\<open>sendChainPacket\<close>, oldest first. \<open>firstTasksPending\<close> and
  \<open>tasksPending\<close> are the calls of \<^verbatim>\<open>executeTask\<close> whose promise has not
  settled yet, made by \<^verbatim>\<open>startFirstTask\<close> and by the scheduling loop.
  \<open>aborted\<close> is \<^verbatim>\<open>abortSignal.aborted\<close> and \<open>isDonePlanning\<close> the
  flag written by \<^verbatim>\<open>setIsDonePlanning\<close>.
\<close>

record Machine =
  goal :: string
  control :: Control
  completedTasks :: "string set"
  taskResults :: "string \<rightharpoonup> BaseResultType"
  optimisticFirstTaskState :: OptimisticFirstTaskState
  aborted :: bool
  isDonePlanning :: bool
  sentPackets :: "(AgentPacket \<times> DAGNode) list"
  firstTasksPending :: "(DAGNode \<times> DAG) list"
  tasksPending :: "DAGNode list"

definition sendChainPacket :: "AgentPacket \<Rightarrow> DAGNode \<Rightarrow> Machine \<Rightarrow> Machine" where
  "sendChainPacket packet node m = m\<lparr>sentPackets := sentPackets m @ [(packet, node)]\<rparr>"

definition setFirstTaskState :: "FirstTaskState \<Rightarrow> Machine \<Rightarrow> Machine" where
  "setFirstTaskState s m =
     m\<lparr>optimisticFirstTaskState := (optimisticFirstTaskState m)\<lparr>firstTaskState := s\<rparr>\<rparr>"

text \<open>
  The entry of \<^verbatim>\<open>run\<close>, up to its first await: the containers are created,
  and either the supplied graph is taken as it is (\<^verbatim>\<open>initDAG.edges.length > 0 &&
  isDonePlanning\<close>) or \<^verbatim>\<open>planTasks\<close> is called. The last argument is the
  abort signal at the time of the call.
\<close>

definition run :: "string \<Rightarrow> DAG \<Rightarrow> bool \<Rightarrow> bool \<Rightarrow> Machine" where
  "run g initDAG isDone ab =
     (let m = \<lparr>goal = g, control = Planning, completedTasks = {rootPlanId},
                taskResults = Map.empty,
                optimisticFirstTaskState = \<lparr>firstTaskState = FTS_not_started, taskId = None\<rparr>,
                aborted = ab, isDonePlanning = isDone, sentPackets = [],
                firstTasksPending = [], tasksPending = []\<rparr>
      in if length (edges initDAG) > 0 \<and> isDone
         then m\<lparr>control := Scheduling initDAG (nodes initDAG)\<rparr>
         else m\<lparr>isDonePlanning := False, control := Planning\<rparr>)"

text \<open>
  \<^verbatim>\<open>startFirstTask\<close> up to its await of \<^verbatim>\<open>executeTask\<close>: the state is
  set to started, the id is added to completedTasks, and only then the abort signal is
  read.
\<close>

definition startFirstTask :: "DAGNode \<Rightarrow> DAG \<Rightarrow> Machine \<Rightarrow> Machine" where
  "startFirstTask task dag m =
     (let m1 = m\<lparr>optimisticFirstTaskState :=
                   \<lparr>firstTaskState = FTS_started, taskId = Some (node_id task)\<rparr>,
                 completedTasks := insert (node_id task) (completedTasks m)\<rparr>
      in if \<not> aborted m1
         then m1\<lparr>firstTasksPending := firstTasksPending m1 @ [(task, dag)]\<rparr>
         else setFirstTaskState FTS_error m1)"

text \<open>
  The rest of \<^verbatim>\<open>startFirstTask\<close> when \<^verbatim>\<open>executeTask\<close> resolves. When the
  node is not found the state is set to error and the function throws to its caller.
\<close>

definition startFirstTask_resolved :: "DAGNode \<Rightarrow> DAG \<Rightarrow> BaseResultType \<Rightarrow> Machine \<Rightarrow> Machine" where
  "startFirstTask_resolved task dag result m =
     (let m1 = m\<lparr>taskResults := (taskResults m)(node_id task \<mapsto> result)\<rparr>
      in case List.find (\<lambda>n. node_id task = node_id n) (nodes dag) of
           None \<Rightarrow> setFirstTaskState FTS_error m1
         | Some node \<Rightarrow>
             if \<not> truthy result
             then setFirstTaskState FTS_error
                    (sendChainPacket (P_error Warn ''no task result'') node m1)
             else setFirstTaskState FTS_done
                    (case result of
                       Result_string s \<Rightarrow> sendChainPacket (P_done s) node m1
                     | _ \<Rightarrow> m1))"

text \<open>
  The catch block of \<^verbatim>\<open>startFirstTask\<close>; \<open>err\<close> is \<^verbatim>\<open>String(error)\<close>.
\<close>

definition startFirstTask_rejected :: "DAGNode \<Rightarrow> string \<Rightarrow> Machine \<Rightarrow> Machine" where
  "startFirstTask_rejected task err m =
     setFirstTaskState FTS_error (sendChainPacket (P_error Warn err) task m)"

text \<open>
  After \<^verbatim>\<open>planTasks\<close> returns: the hook-up, the lookup of the root node, the
  summary packet, \<^verbatim>\<open>setIsDonePlanning(true)\<close>, and
  \<^verbatim>\<open>toDoNodes = Array.from(dag.nodes)\<close>.
\<close>

definition planner_returned :: "DAG \<Rightarrow> Machine \<Rightarrow> Machine" where
  "planner_returned planDag m =
     (let dag = hookup (goal m) planDag
      in case List.find (\<lambda>n. node_id n = rootPlanId) (nodes dag) of
           None \<Rightarrow> m\<lparr>control := Settled (Rejected ''no root node'')\<rparr>
         | Some rootNode \<Rightarrow>
             (sendChainPacket
                (P_done (''Planned an execution graph with '' @ string_of_nat (length (nodes dag))
                         @ '' tasks and '' @ string_of_nat (length (edges dag)) @ '' edges.''))
                rootNode m)
             \<lparr>isDonePlanning := True, control := Scheduling dag (nodes dag)\<rparr>)"

text \<open>The catch block around \<^verbatim>\<open>planTasks\<close>.\<close>

definition planner_threw :: "string \<Rightarrow> Machine \<Rightarrow> Machine" where
  "planner_threw err m =
     (case initialNodes (goal m) of
        n # _ \<Rightarrow> (sendChainPacket (P_error Fatal err) n m)\<lparr>control := Settled (Resolved_Error err)\<rparr>
      | [] \<Rightarrow> m\<lparr>control := Settled (Rejected ''no initial node'')\<rparr>)"

text \<open>
  One pass of the \<^verbatim>\<open>while\<close> loop, from its test to the call of
  \<^verbatim>\<open>executeTask\<close>. It reads the state and changes only its local
  \<^verbatim>\<open>toDoNodes\<close>: the loop ends (\<open>Exit\<close>), throws, sleeps and continues, or
  hands one task to the executor (with the new \<^verbatim>\<open>toDoNodes\<close>).
  \<^verbatim>\<open>toDoNodes.indexOf(task)\<close> finds the task, which was filtered out of that very
  array, so the splice removes its first occurrence.
\<close>

datatype LoopOutcome = Exit | Throw string | Sleep | Dispatch DAGNode "DAGNode list"

definition loop_iteration :: "DAG \<Rightarrow> DAGNode list \<Rightarrow> Machine \<Rightarrow> LoopOutcome" where
  "loop_iteration dag toDoNodes m =
     (if isGoalReached dag (completedTasks m) then Exit
      else if aborted m then Throw ''Signal aborted''
      else
        let pendingTasks = filter (\<lambda>node. node_id node \<notin> completedTasks m) toDoNodes
        in if pendingTasks = [] \<or> firstTaskState (optimisticFirstTaskState m) = FTS_started
           then Sleep
           else
             let pendingCurrentDagLayerTasks =
                   filter (\<lambda>task. list_all (\<lambda>edge. sId edge \<in> completedTasks m)
                                    (filter (\<lambda>edge. tId edge = node_id task) (edges dag)))
                          pendingTasks
             in if pendingCurrentDagLayerTasks = [] \<and> pendingTasks = [] \<and> toDoNodes = []
                then Throw ''No pending tasks, and no executable tasks, but goal not reached.''
                else case pendingCurrentDagLayerTasks of
                       [] \<Rightarrow> Throw ''no task''
                     | task # _ \<Rightarrow> Dispatch task (remove1 task toDoNodes))"

text \<open>
  The asynchronous closure started for a dispatched task, after its await:
  on success the result is stored and the id added to completedTasks, on failure a
  warn packet is sent and the closure returns.
\<close>

definition task_resolved :: "DAGNode \<Rightarrow> BaseResultType \<Rightarrow> Machine \<Rightarrow> Machine" where
  "task_resolved task result m =
     m\<lparr>taskResults := (taskResults m)(node_id task \<mapsto> result),
       completedTasks := insert (node_id task) (completedTasks m)\<rparr>"

definition task_rejected :: "DAGNode \<Rightarrow> string \<Rightarrow> Machine \<Rightarrow> Machine" where
  "task_rejected task err m = sendChainPacket (P_error Warn err) task m"

section \<open>Interleaving of the run with its collaborators\<close>

text \<open>
  \<^verbatim>\<open>run\<close> is one coroutine among several: the planner (which holds the
  callbacks \<^verbatim>\<open>startFirstTask\<close>, \<^verbatim>\<open>updateTaskState\<close> and
  \<^verbatim>\<open>sendChainPacket\<close>), the executions started by \<^verbatim>\<open>executeTask\<close>, and
  whoever owns the abort signal. Between two awaits a coroutine runs alone, so an
  execution of the program is a sequence of the following events, each one an
  uninterrupted piece of the source. The planner and the executor are not among the
  sources: what they do and when is left open, and they are taken not to write to the
  shared containers themselves. Every order of events is allowed here; the program
  admits fewer (between two passes of the loop nothing else runs unless the first
  pass sleeps), so what is proved of all sequences holds of the program's, and the
  sequences written out below are ones the program can run.
\<close>

datatype Event =
    Abort
  | PlannerStartsFirstTask DAGNode DAG
  | PlannerUpdatesTaskState FirstTaskState
  | PlannerReturns DAG
  | PlannerThrows string
  | FirstTaskResolves DAGNode DAG BaseResultType
  | FirstTaskRejects DAGNode DAG string
  | LoopIteration
  | TaskResolves DAGNode BaseResultType
  | TaskRejects DAGNode string
  | ExternalPacket AgentPacket DAGNode

text \<open>
  One event. An event that cannot happen in a state (a planner callback while no
  planner runs, the settling of an execution that is not pending, a loop pass outside
  the loop) leaves the state as it is. \<^verbatim>\<open>updateTaskState\<close> accepts the three
  states of its parameter type only.
\<close>

fun step :: "Event \<Rightarrow> Machine \<Rightarrow> Machine" where
  "step Abort m = m\<lparr>aborted := True\<rparr>"
| "step (PlannerStartsFirstTask task dag) m =
     (case control m of Planning \<Rightarrow> startFirstTask task dag m | _ \<Rightarrow> m)"
| "step (PlannerUpdatesTaskState s) m =
     (case control m of
        Planning \<Rightarrow> (if s = FTS_error then m else setFirstTaskState s m)
      | _ \<Rightarrow> m)"
| "step (PlannerReturns planDag) m =
     (case control m of Planning \<Rightarrow> planner_returned planDag m | _ \<Rightarrow> m)"
| "step (PlannerThrows err) m =
     (case control m of Planning \<Rightarrow> planner_threw err m | _ \<Rightarrow> m)"
| "step (FirstTaskResolves task dag result) m =
     (if (task, dag) \<in> set (firstTasksPending m)
      then startFirstTask_resolved task dag result
             (m\<lparr>firstTasksPending := remove1 (task, dag) (firstTasksPending m)\<rparr>)
      else m)"
| "step (FirstTaskRejects task dag err) m =
     (if (task, dag) \<in> set (firstTasksPending m)
      then startFirstTask_rejected task err
             (m\<lparr>firstTasksPending := remove1 (task, dag) (firstTasksPending m)\<rparr>)
      else m)"
| "step LoopIteration m =
     (case control m of
        Scheduling dag toDoNodes \<Rightarrow>
          (case loop_iteration dag toDoNodes m of
             Exit \<Rightarrow> m\<lparr>control := Settled Resolved_Result\<rparr>
           | Throw msg \<Rightarrow> m\<lparr>control := Settled (Rejected msg)\<rparr>
           | Sleep \<Rightarrow> m
           | Dispatch task rest \<Rightarrow>
               m\<lparr>control := Scheduling dag rest, tasksPending := tasksPending m @ [task]\<rparr>)
      | _ \<Rightarrow> m)"
| "step (TaskResolves task result) m =
     (if task \<in> set (tasksPending m)
      then task_resolved task result (m\<lparr>tasksPending := remove1 task (tasksPending m)\<rparr>)
      else m)"
| "step (TaskRejects task err) m =
     (if task \<in> set (tasksPending m)
      then task_rejected task err (m\<lparr>tasksPending := remove1 task (tasksPending m)\<rparr>)
      else m)"
| "step (ExternalPacket packet node) m = sendChainPacket packet node m"

fun exec :: "Event list \<Rightarrow> Machine \<Rightarrow> Machine" where
  "exec [] m = m"
| "exec (e # es) m = exec es (step e m)"

text \<open>
  The nodes the scheduling loop hands to \<^verbatim>\<open>executeTask\<close>: by one event, and
  along a sequence of events.
\<close>

definition loop_dispatch :: "Event \<Rightarrow> Machine \<Rightarrow> DAGNode list" where
  "loop_dispatch e m =
     (case e of
        LoopIteration \<Rightarrow>
          (case control m of
             Scheduling dag toDoNodes \<Rightarrow>
               (case loop_iteration dag toDoNodes m of
                  Dispatch task rest \<Rightarrow> [task]
                | _ \<Rightarrow> [])
           | _ \<Rightarrow> [])
      | _ \<Rightarrow> [])"

fun dispatched :: "Event list \<Rightarrow> Machine \<Rightarrow> DAGNode list" where
  "dispatched [] m = []"
| "dispatched (e # es) m = loop_dispatch e m @ dispatched es (step e m)"

section \<open>TaskExecutor.startFirstTask (the class that took over the optimistic first task)\<close>

text \<open>
  The state a \<^verbatim>\<open>TaskExecutor\<close> works on: the shared completedTasks set, the
  signal of its abort controller, and the calls it makes to its collaborators
  (\<^verbatim>\<open>injectAgentPacket\<close>, \<^verbatim>\<open>resolveFirstTask\<close> and
  \<^verbatim>\<open>rejectFirstTask\<close>, \<^verbatim>\<open>executeTask\<close>), oldest first. In this class
  \<^verbatim>\<open>executeTask\<close> resolves with a packet.
\<close>

datatype FirstTaskSettlement = ResolveFirstTask AgentPacket | RejectFirstTask string

record TaskExecutor =
  te_completedTasks :: "string set"
  te_aborted :: bool
  te_injected :: "(AgentPacket \<times> DAGNode) list"
  te_firstTask :: "FirstTaskSettlement list"
  te_executeCalls :: "DAGNode list"

text \<open>How the awaited \<^verbatim>\<open>executeTask\<close> settles: with a packet, or with an error message.\<close>

datatype ExecuteOutcome = Execute_resolves AgentPacket | Execute_rejects string

text \<open>
  \<^verbatim>\<open>TaskExecutor.startFirstTask\<close>, with the outcome of the one call of
  \<^verbatim>\<open>executeTask\<close> it may make (not looked at when the signal is already aborted).
\<close>

definition TaskExecutor_startFirstTask ::
    "DAGNode \<Rightarrow> ExecuteOutcome \<Rightarrow> TaskExecutor \<Rightarrow> TaskExecutor" where
  "TaskExecutor_startFirstTask task outcome s =
     (let s1 = s\<lparr>te_completedTasks := insert (node_id task) (te_completedTasks s)\<rparr>
      in if \<not> te_aborted s1
         then
           (let s2 = s1\<lparr>te_executeCalls := te_executeCalls s1 @ [task]\<rparr>
            in case outcome of
                 Execute_resolves result \<Rightarrow>
                   s2\<lparr>te_firstTask := te_firstTask s2 @ [ResolveFirstTask result],
                      te_injected := te_injected s2 @ [(result, task)]\<rparr>
               | Execute_rejects message \<Rightarrow>
                   s2\<lparr>te_injected := te_injected s2 @ [(P_error Warn message, task)],
                      te_firstTask := te_firstTask s2 @ [RejectFirstTask message],
                      te_aborted := True\<rparr>)
         else s1\<lparr>te_firstTask := te_firstTask s1 @ [RejectFirstTask ''Signal aborted''],
                 te_aborted := True\<rparr>)"

section \<open>Example graphs and runs\<close>

text \<open>
  Two plan nodes, the plans \<open>A\<close> and \<open>A \<rightarrow> B\<close>, the plan without
  nodes, a fresh run that plans
  (no initial graph, planning not done, not aborted), and a fresh task executor.
\<close>

definition nodeA :: DAGNode where
  "nodeA = \<lparr>node_id = ''1-1'', name = ''A'', act = ''do'', node_context = ''first''\<rparr>"

definition nodeB :: DAGNode where
  "nodeB = \<lparr>node_id = ''1-2'', name = ''B'', act = ''do'', node_context = ''second''\<rparr>"

definition planA :: DAG where
  "planA = \<lparr>nodes = [nodeA], edges = []\<rparr>"

definition planAB :: DAG where
  "planAB = \<lparr>nodes = [nodeA, nodeB], edges = [\<lparr>sId = ''1-1'', tId = ''1-2''\<rparr>]\<rparr>"

definition emptyPlan :: DAG where
  "emptyPlan = \<lparr>nodes = [], edges = []\<rparr>"

definition fresh_run :: Machine where
  "fresh_run = run ''g'' \<lparr>nodes = [], edges = []\<rparr> False False"

text \<open>
  The first task \<open>A\<close> is started during planning and the plan \<open>A \<rightarrow> B\<close>
  returns while it runs; then the same, followed by a pass of the loop and an abort
  during its sleep.
\<close>

definition first_started :: Machine where
  "first_started = exec [PlannerStartsFirstTask nodeA planA, PlannerReturns planAB] fresh_run"

definition first_started_aborted :: Machine where
  "first_started_aborted =
     exec [PlannerStartsFirstTask nodeA planA, PlannerReturns planAB, LoopIteration, Abort]
       fresh_run"

text \<open>
  The plan \<open>A\<close> returns, the first pass of the loop dispatches \<open>A\<close>, the
  second pass sleeps.
\<close>

definition dispatched_A :: Machine where
  "dispatched_A = exec [PlannerReturns planA, LoopIteration, LoopIteration] fresh_run"

definition fresh_executor :: TaskExecutor where
  "fresh_executor =
     \<lparr>te_completedTasks = {rootPlanId}, te_aborted = False, te_injected = [],
      te_firstTask = [], te_executeCalls = []\<rparr>"

section \<open>Finish packets\<close>

lemma find_rev_last:
  "List.find P (rev xs) = Some x \<Longrightarrow>
     \<exists>pre suf. xs = pre @ x # suf \<and> P x \<and> list_all (\<lambda>y. \<not> P y) suf"
proof (induction xs rule: rev_induct)
  case Nil
  then show ?case by simp
next
  case (snoc y ys)
  show ?case
  proof (cases "P y")
    case True
    with snoc.prems have "x = y" by simp
    with True have "ys @ [y] = ys @ x # [] \<and> P x \<and> list_all (\<lambda>y. \<not> P y) []" by simp
    then show ?thesis by blast
  next
    case False
    with snoc.prems have "List.find P (rev ys) = Some x" by simp
    from snoc.IH [OF this] obtain pre suf where
      h: "ys = pre @ x # suf" "P x" "list_all (\<lambda>y. \<not> P y) suf" by blast
    with False have "ys @ [y] = pre @ x # (suf @ [y]) \<and> P x \<and> list_all (\<lambda>y. \<not> P y) (suf @ [y])"
      by simp
    then show ?thesis by blast
  qed
qed

lemma find_rev_none:
  "(List.find P (rev xs) = None) = list_all (\<lambda>y. \<not> P y) xs"
  by (auto simp: find_None_iff list_all_iff)

lemma isAgentPacketFinishedType_iff:
  "isAgentPacketFinishedType ty =
     (ty \<in> {Tag_handleAgentEnd, Tag_done, Tag_error, Tag_handleChainError,
              Tag_handleLLMError, Tag_handleRetrieverError, Tag_handleAgentError})"
  by (simp add: isAgentPacketFinishedType_def AgentPacketFinishedTypes_def)

text \<open>
  C3. For every finite sequence of packets: if some packet of the sequence has one of
  the seven types handleAgentEnd, done, error, handleChainError, handleLLMError,
  handleRetrieverError, handleAgentError, then \<open>findFinishPacket\<close> returns the last
  such packet (the sequence splits as \<open>pre @ p # suf\<close> with \<open>p\<close> of one of the
  seven types, no packet of \<open>suf\<close> of any of them, and \<open>p\<close> is the result). If
  no packet of the sequence has one of the seven types, the empty sequence included,
  the result is the synthetic \<open>error\<close> packet of severity fatal.
\<close>

theorem findFinishPacket_last_or_fatal:
  "((\<exists>p \<in> set packets. packet_type p \<in>
          {Tag_handleAgentEnd, Tag_done, Tag_error, Tag_handleChainError,
           Tag_handleLLMError, Tag_handleRetrieverError, Tag_handleAgentError}) \<longrightarrow>
      (\<exists>pre p suf. packets = pre @ p # suf
          \<and> packet_type p \<in>
          {Tag_handleAgentEnd, Tag_done, Tag_error, Tag_handleChainError,
           Tag_handleLLMError, Tag_handleRetrieverError, Tag_handleAgentError}
          \<and> list_all (\<lambda>q. packet_type q \<notin>
          {Tag_handleAgentEnd, Tag_done, Tag_error, Tag_handleChainError,
           Tag_handleLLMError, Tag_handleRetrieverError, Tag_handleAgentError}) suf
          \<and> findFinishPacket packets = p))
   \<and> (\<not> (\<exists>p \<in> set packets. packet_type p \<in>
          {Tag_handleAgentEnd, Tag_done, Tag_error, Tag_handleChainError,
           Tag_handleLLMError, Tag_handleRetrieverError, Tag_handleAgentError}) \<longrightarrow>
      findFinishPacket packets =
        P_error Fatal (''No result packet found in '' @ string_of_nat (length packets) @ '' packets''))"
proof -
  define F where "F = {Tag_handleAgentEnd, Tag_done, Tag_error, Tag_handleChainError,
           Tag_handleLLMError, Tag_handleRetrieverError, Tag_handleAgentError}"
  have fin: "\<And>ty. isAgentPacketFinishedType ty = (ty \<in> F)"
    by (simp only: F_def isAgentPacketFinishedType_iff)
  have main: "((\<exists>p \<in> set packets. packet_type p \<in> F) \<longrightarrow>
      (\<exists>pre p suf. packets = pre @ p # suf \<and> packet_type p \<in> F
          \<and> list_all (\<lambda>q. packet_type q \<notin> F) suf \<and> findFinishPacket packets = p))
   \<and> (\<not> (\<exists>p \<in> set packets. packet_type p \<in> F) \<longrightarrow>
      findFinishPacket packets =
        P_error Fatal (''No result packet found in '' @ string_of_nat (length packets) @ '' packets''))"
  proof (cases "findLast (\<lambda>packet. isAgentPacketFinishedType (packet_type packet)) packets")
    case None
    then have "list_all (\<lambda>p. \<not> isAgentPacketFinishedType (packet_type p)) packets"
      by (simp add: findLast_def find_rev_none)
    then have "\<not> (\<exists>p \<in> set packets. packet_type p \<in> F)"
      by (simp only: fin list_all_iff) blast
    moreover from None have "findFinishPacket packets =
        P_error Fatal (''No result packet found in '' @ string_of_nat (length packets) @ '' packets'')"
      by (simp add: findFinishPacket_def)
    ultimately show ?thesis by blast
  next
    case (Some p)
    then obtain pre suf where
      h: "packets = pre @ p # suf" "isAgentPacketFinishedType (packet_type p)"
         "list_all (\<lambda>q. \<not> isAgentPacketFinishedType (packet_type q)) suf"
      using find_rev_last [of "\<lambda>packet. isAgentPacketFinishedType (packet_type packet)" packets p]
      by (auto simp: findLast_def)
    from h(2) have mem: "packet_type p \<in> F" by (simp only: fin)
    from h(3) have suf: "list_all (\<lambda>q. packet_type q \<notin> F) suf" by (simp only: fin)
    from h(1) mem have ex: "\<exists>p \<in> set packets. packet_type p \<in> F" by auto
    from Some have "findFinishPacket packets = p" by (simp add: findFinishPacket_def)
    with h(1) mem suf ex show ?thesis by blast
  qed
  then show ?thesis unfolding F_def .
qed

text \<open>
  The theorem at the packet sequences \<open>[handleLLMStart, t, handleAgentEnd, t]\<close> and
  \<open>[handleToolStart]\<close>, with the results written out, and the result for
  \<open>[done, handleText, handleRetrieverError, t]\<close>.
\<close>

theorem findFinishPacket_last_or_fatal_witness:
  "(\<exists>p \<in> set [P_handleLLMStart, P_t ''a'', P_handleAgentEnd ''X'', P_t ''b''].
       packet_type p \<in>
          {Tag_handleAgentEnd, Tag_done, Tag_error, Tag_handleChainError,
           Tag_handleLLMError, Tag_handleRetrieverError, Tag_handleAgentError})
   \<and> (\<exists>pre p suf. [P_handleLLMStart, P_t ''a'', P_handleAgentEnd ''X'', P_t ''b''] = pre @ p # suf
          \<and> packet_type p \<in>
          {Tag_handleAgentEnd, Tag_done, Tag_error, Tag_handleChainError,
           Tag_handleLLMError, Tag_handleRetrieverError, Tag_handleAgentError}
          \<and> list_all (\<lambda>q. packet_type q \<notin>
          {Tag_handleAgentEnd, Tag_done, Tag_error, Tag_handleChainError,
           Tag_handleLLMError, Tag_handleRetrieverError, Tag_handleAgentError}) suf
          \<and> findFinishPacket [P_handleLLMStart, P_t ''a'', P_handleAgentEnd ''X'', P_t ''b''] = p)
   \<and> findFinishPacket [P_handleLLMStart, P_t ''a'', P_handleAgentEnd ''X'', P_t ''b''] =
        P_handleAgentEnd ''X''
   \<and> findFinishPacket [P_done ''v'', P_handleText ''w'', P_handleRetrieverError ''e'', P_t ''b''] =
        P_handleRetrieverError ''e''
   \<and> \<not> (\<exists>p \<in> set [P_handleToolStart ''tool'' ''in'']. packet_type p \<in>
          {Tag_handleAgentEnd, Tag_done, Tag_error, Tag_handleChainError,
           Tag_handleLLMError, Tag_handleRetrieverError, Tag_handleAgentError})
   \<and> findFinishPacket [P_handleToolStart ''tool'' ''in''] =
        P_error Fatal (''No result packet found in ''
          @ string_of_nat (length [P_handleToolStart ''tool'' ''in'']) @ '' packets'')
   \<and> string_of_nat (length [P_handleToolStart ''tool'' ''in'']) = ''1''"
proof -
  define F where "F = {Tag_handleAgentEnd, Tag_done, Tag_error, Tag_handleChainError,
           Tag_handleLLMError, Tag_handleRetrieverError, Tag_handleAgentError}"
  let ?xs = "[P_handleLLMStart, P_t ''a'', P_handleAgentEnd ''X'', P_t ''b'']"
  let ?ys = "[P_handleToolStart ''tool'' ''in'']"
  have a: "\<exists>p \<in> set ?xs. packet_type p \<in> F"
    by (simp add: F_def)
  have b: "\<not> (\<exists>p \<in> set ?ys. packet_type p \<in> F)"
    by (simp add: F_def)
  have c: "findFinishPacket ?xs = P_handleAgentEnd ''X''"
    by (simp add: findFinishPacket_def findLast_def isAgentPacketFinishedType_iff)
  have d: "findFinishPacket [P_done ''v'', P_handleText ''w'', P_handleRetrieverError ''e'', P_t ''b''] =
        P_handleRetrieverError ''e''"
    by (simp add: findFinishPacket_def findLast_def isAgentPacketFinishedType_iff)
  have e: "string_of_nat (length ?ys) = ''1''"
    by (simp add: string_of_nat.simps digit_char_def)
  have "(\<exists>p \<in> set ?xs. packet_type p \<in> F)
   \<and> (\<exists>pre p suf. ?xs = pre @ p # suf \<and> packet_type p \<in> F
          \<and> list_all (\<lambda>q. packet_type q \<notin> F) suf \<and> findFinishPacket ?xs = p)
   \<and> findFinishPacket ?xs = P_handleAgentEnd ''X''
   \<and> findFinishPacket [P_done ''v'', P_handleText ''w'', P_handleRetrieverError ''e'', P_t ''b''] =
        P_handleRetrieverError ''e''
   \<and> \<not> (\<exists>p \<in> set ?ys. packet_type p \<in> F)
   \<and> findFinishPacket ?ys =
        P_error Fatal (''No result packet found in '' @ string_of_nat (length ?ys) @ '' packets'')
   \<and> string_of_nat (length ?ys) = ''1''"
    using a b c d e
      findFinishPacket_last_or_fatal [of ?xs, folded F_def]
      findFinishPacket_last_or_fatal [of ?ys, folded F_def]
    by blast
  then show ?thesis unfolding F_def .
qed

text \<open>
  Each of the seven finishing types is found, also when it stands alone.
\<close>

lemma findFinishPacket_each_finishing_type:
  "findFinishPacket [P_handleAgentEnd x] = P_handleAgentEnd x"
  "findFinishPacket [P_done x] = P_done x"
  "findFinishPacket [P_error sev x] = P_error sev x"
  "findFinishPacket [P_handleChainError x] = P_handleChainError x"
  "findFinishPacket [P_handleLLMError x] = P_handleLLMError x"
  "findFinishPacket [P_handleRetrieverError x] = P_handleRetrieverError x"
  "findFinishPacket [P_handleAgentError x] = P_handleAgentError x"
  by (simp_all add: findFinishPacket_def findLast_def isAgentPacketFinishedType_iff)

section \<open>Status mapper\<close>

text \<open>
  The table of \<open>mapPacketTypeToStatus\<close> on every tag but
  \<^verbatim>\<open>handleRetrieverError\<close>: terminal-success tags give done, the other
  terminal-failure tags give error, \<^verbatim>\<open>requestHumanInput\<close> gives wait, the
  lifecycle, streaming and presentation-working tags give working, \<^verbatim>\<open>idle\<close>
  and the absent tag give idle.
\<close>

lemma mapPacketTypeToStatus_table:
  "list_all (\<lambda>ty. mapPacketTypeToStatus (Some ty) = Status_done)
     [Tag_done, Tag_handleAgentEnd, Tag_handleChainEnd]"
  "list_all (\<lambda>ty. mapPacketTypeToStatus (Some ty) = Status_error)
     [Tag_error, Tag_handleLLMError, Tag_handleChainError, Tag_handleToolError,
      Tag_handleAgentError]"
  "mapPacketTypeToStatus (Some Tag_requestHumanInput) = Status_wait"
  "list_all (\<lambda>ty. mapPacketTypeToStatus (Some ty) = Status_working)
     [Tag_working, Tag_t, Tag_handleLLMStart, Tag_handleChainStart, Tag_handleToolStart,
      Tag_handleAgentAction, Tag_handleText, Tag_handleToolEnd, Tag_starting,
      Tag_handleLLMEnd, Tag_handleRetrieverStart, Tag_handleRetrieverEnd,
      Tag_handleChatModelEnd, Tag_handleChatModelStart]"
  "mapPacketTypeToStatus (Some Tag_idle) = Status_idle"
  "mapPacketTypeToStatus None = Status_idle"
  by simp_all

text \<open>
  C4, at the tag where the table departs from the claim. The switch lists
  \<^verbatim>\<open>handleRetrieverError\<close> among the working labels, so this terminal-failure
  tag, which \<open>AgentPacketFinishedTypes\<close> counts as finishing, is mapped to working
  and not to error.
\<close>

theorem mapPacketTypeToStatus_handleRetrieverError:
  "isAgentPacketFinishedType Tag_handleRetrieverError
   \<and> mapPacketTypeToStatus (Some Tag_handleRetrieverError) = Status_working
   \<and> mapPacketTypeToStatus (Some Tag_handleRetrieverError) \<noteq> Status_error"
  by (simp add: isAgentPacketFinishedType_def AgentPacketFinishedTypes_def)

section \<open>Control of the run\<close>

text \<open>
  Facts about every event: planning is never entered again, the graph of the
  scheduling loop never changes, a settled run stays settled.
\<close>

lemma incoming_fold:
  "fold (\<lambda>edge s. insert (tId edge) s) es S = S \<union> tId ` set es"
  by (induction es arbitrary: S) auto

lemma no_incoming_iff:
  "(x \<notin> tId ` set es) = (\<not> list_ex (\<lambda>edge. tId edge = x) es)"
  by (force simp: list_ex_iff)

lemma findNodesWithNoIncomingEdges_filter:
  "findNodesWithNoIncomingEdges dag =
     filter (\<lambda>node. \<not> list_ex (\<lambda>edge. tId edge = node_id node) (edges dag)) (nodes dag)"
  by (simp add: findNodesWithNoIncomingEdges_def incoming_fold no_incoming_iff)

lemma step_not_planning:
  "control m \<noteq> Planning \<Longrightarrow> step e m = m' \<Longrightarrow> control m' \<noteq> Planning"
  by (cases e; cases "control m")
     (auto simp: startFirstTask_resolved_def startFirstTask_rejected_def setFirstTaskState_def
        sendChainPacket_def task_resolved_def task_rejected_def Let_def
        split: option.splits if_splits LoopOutcome.splits BaseResultType.splits)

lemma exec_not_planning:
  "control m \<noteq> Planning \<Longrightarrow> control (exec evs m) \<noteq> Planning"
proof (induction evs arbitrary: m)
  case Nil
  then show ?case by simp
next
  case (Cons e evs)
  from Cons.prems have "control (step e m) \<noteq> Planning"
    using step_not_planning by blast
  then show ?case using Cons.IH by simp
qed

lemma step_graph_frozen:
  "control m = Scheduling dag toDoNodes \<Longrightarrow>
     (\<exists>rest. control (step e m) = Scheduling dag rest) \<or> (\<exists>r. control (step e m) = Settled r)"
  by (cases e)
     (auto simp: startFirstTask_resolved_def startFirstTask_rejected_def setFirstTaskState_def
        sendChainPacket_def task_resolved_def task_rejected_def Let_def
        split: option.splits if_splits LoopOutcome.splits BaseResultType.splits)

lemma step_settled:
  "control m = Settled r \<Longrightarrow> control (step e m) = Settled r"
  by (cases e)
     (auto simp: startFirstTask_resolved_def startFirstTask_rejected_def setFirstTaskState_def
        sendChainPacket_def task_resolved_def task_rejected_def Let_def
        split: option.splits if_splits LoopOutcome.splits BaseResultType.splits)

lemma exec_settled:
  "control m = Settled r \<Longrightarrow> control (exec evs m) = Settled r"
  by (induction evs arbitrary: m) (auto simp: step_settled)

lemma exec_graph_frozen:
  "control m = Scheduling dag toDoNodes \<Longrightarrow>
     (\<exists>rest. control (exec evs m) = Scheduling dag rest) \<or> (\<exists>r. control (exec evs m) = Settled r)"
proof (induction evs arbitrary: m toDoNodes)
  case Nil
  then show ?case by simp
next
  case (Cons e evs)
  from step_graph_frozen [OF Cons.prems, of e] show ?case
  proof
    assume "\<exists>rest. control (step e m) = Scheduling dag rest"
    then obtain rest where "control (step e m) = Scheduling dag rest" by blast
    from Cons.IH [OF this] show ?thesis by simp
  next
    assume "\<exists>r. control (step e m) = Settled r"
    then obtain r where "control (step e m) = Settled r" by blast
    then have "control (exec evs (step e m)) = Settled r" by (rule exec_settled)
    then show ?thesis by simp
  qed
qed

lemma planner_returned_control:
  "control (planner_returned planDag m) =
     Scheduling (hookup (goal m) planDag) (nodes (hookup (goal m) planDag))"
  by (simp add: planner_returned_def hookup_def initialNodes_def sendChainPacket_def Let_def)

text \<open>
  C5. On the path that plans, when \<^verbatim>\<open>planTasks\<close> returns the plan graph the
  execution graph is the plan graph with the root node put in front of its nodes and,
  after its edges, one edge from the root id to each plan node that no plan edge has
  as its target, in the order of the nodes; the plan's nodes and edges are all kept.
  The scheduling loop starts on this graph, and whatever happens afterwards the loop
  keeps this very graph until the run settles: planning and the hook-up are not
  entered a second time.
\<close>

theorem hookup_after_planning:
  assumes "control m = Planning"
  shows "hookup (goal m) planDag =
           \<lparr>nodes = initialNodes (goal m) @ nodes planDag,
            edges = edges planDag @
              map (\<lambda>node. \<lparr>sId = rootPlanId, tId = node_id node\<rparr>)
                (filter (\<lambda>node. \<not> list_ex (\<lambda>edge. tId edge = node_id node) (edges planDag))
                   (nodes planDag))\<rparr>
         \<and> map node_id (initialNodes (goal m)) = [rootPlanId]
         \<and> control (step (PlannerReturns planDag) m) =
             Scheduling (hookup (goal m) planDag) (nodes (hookup (goal m) planDag))
         \<and> (\<forall>evs. (\<exists>rest. control (exec evs (step (PlannerReturns planDag) m)) =
                            Scheduling (hookup (goal m) planDag) rest)
                 \<or> (\<exists>r. control (exec evs (step (PlannerReturns planDag) m)) = Settled r))"
proof -
  have a: "hookup (goal m) planDag =
           \<lparr>nodes = initialNodes (goal m) @ nodes planDag,
            edges = edges planDag @
              map (\<lambda>node. \<lparr>sId = rootPlanId, tId = node_id node\<rparr>)
                (filter (\<lambda>node. \<not> list_ex (\<lambda>edge. tId edge = node_id node) (edges planDag))
                   (nodes planDag))\<rparr>"
    by (simp add: hookup_def hookupEdges_def initialEdges_def findNodesWithNoIncomingEdges_filter)
  have b: "map node_id (initialNodes (goal m)) = [rootPlanId]"
    by (simp add: initialNodes_def)
  from assms have c: "control (step (PlannerReturns planDag) m) =
             Scheduling (hookup (goal m) planDag) (nodes (hookup (goal m) planDag))"
    by (simp add: planner_returned_control)
  from exec_graph_frozen [OF c] a b c show ?thesis by blast
qed

text \<open>
  The theorem for the plan \<open>A \<rightarrow> B\<close>: the only added edge goes from the root
  to \<open>A\<close>.
\<close>

theorem hookup_after_planning_witness:
  "control fresh_run = Planning
   \<and> hookup (goal fresh_run) planAB =
       \<lparr>nodes = [\<lparr>node_id = rootPlanId, name = rootPlanId @ '' Queen Bee'',
                  act = ''Planning how to achieve your goal'', node_context = ''g''\<rparr>,
                 nodeA, nodeB],
        edges = [\<lparr>sId = ''1-1'', tId = ''1-2''\<rparr>, \<lparr>sId = rootPlanId, tId = ''1-1''\<rparr>]\<rparr>
   \<and> control (step (PlannerReturns planAB) fresh_run) =
       Scheduling (hookup (goal fresh_run) planAB) (nodes (hookup (goal fresh_run) planAB))"
proof -
  have h: "control fresh_run = Planning"
    by (simp add: fresh_run_def run_def)
  have g: "goal fresh_run = ''g''"
    by (simp add: fresh_run_def run_def)
  have n: "node_id nodeA = ''1-1''" "node_id nodeB = ''1-2''"
    by (simp_all add: nodeA_def nodeB_def)
  from hookup_after_planning [OF h, of planAB] h show ?thesis
    by (simp add: g n initialNodes_def planAB_def)
qed

section \<open>The scheduling loop\<close>

text \<open>What holds whenever a pass of the loop hands a task to the executor.\<close>

lemma loop_iteration_Dispatch:
  assumes "loop_iteration dag toDoNodes m = Dispatch task rest"
  shows "task \<in> set toDoNodes"
    and "node_id task \<notin> completedTasks m"
    and "list_all (\<lambda>edge. sId edge \<in> completedTasks m)
           (filter (\<lambda>edge. tId edge = node_id task) (edges dag))"
    and "firstTaskState (optimisticFirstTaskState m) \<noteq> FTS_started"
    and "\<not> aborted m"
    and "rest = remove1 task toDoNodes"
proof -
  let ?pending = "filter (\<lambda>node. node_id node \<notin> completedTasks m) toDoNodes"
  let ?ready = "filter (\<lambda>task. list_all (\<lambda>edge. sId edge \<in> completedTasks m)
                    (filter (\<lambda>edge. tId edge = node_id task) (edges dag))) ?pending"
  from assms have g: "\<not> aborted m" "firstTaskState (optimisticFirstTaskState m) \<noteq> FTS_started"
    by (auto simp: loop_iteration_def Let_def split: if_splits)
  from assms obtain tl where r: "?ready = task # tl" and rest: "rest = remove1 task toDoNodes"
    by (auto simp: loop_iteration_def Let_def split: if_splits list.splits)
  have "task \<in> set ?ready" by (simp only: r list.set_intros)
  then have "task \<in> set toDoNodes" "node_id task \<notin> completedTasks m"
     "list_all (\<lambda>edge. sId edge \<in> completedTasks m)
           (filter (\<lambda>edge. tId edge = node_id task) (edges dag))"
    by auto
  with g rest show "task \<in> set toDoNodes"
    and "node_id task \<notin> completedTasks m"
    and "list_all (\<lambda>edge. sId edge \<in> completedTasks m)
           (filter (\<lambda>edge. tId edge = node_id task) (edges dag))"
    and "firstTaskState (optimisticFirstTaskState m) \<noteq> FTS_started"
    and "\<not> aborted m"
    and "rest = remove1 task toDoNodes"
    by simp_all
qed

lemma loop_dispatch_cases:
  assumes "task \<in> set (loop_dispatch e m)"
  shows "\<exists>dag toDoNodes rest. e = LoopIteration \<and> control m = Scheduling dag toDoNodes
        \<and> loop_iteration dag toDoNodes m = Dispatch task rest"
proof (cases e)
  case LoopIteration
  show ?thesis
  proof (cases "control m")
    case (Scheduling dag toDoNodes)
    show ?thesis
    proof (cases "loop_iteration dag toDoNodes m")
      case (Dispatch t rest)
      with assms LoopIteration Scheduling have "t = task"
        by (simp add: loop_dispatch_def)
      with Dispatch LoopIteration Scheduling show ?thesis by blast
    qed (use assms LoopIteration Scheduling in \<open>simp_all add: loop_dispatch_def\<close>)
  qed (use assms LoopIteration in \<open>simp_all add: loop_dispatch_def\<close>)
qed (use assms in \<open>simp_all add: loop_dispatch_def\<close>)

lemma loop_iteration_aborted:
  "aborted m \<Longrightarrow> loop_iteration dag toDoNodes m \<noteq> Dispatch task rest"
  using loop_iteration_Dispatch(5) by blast

lemmas callback_defs =
  startFirstTask_def startFirstTask_resolved_def startFirstTask_rejected_def
  setFirstTaskState_def sendChainPacket_def task_resolved_def task_rejected_def
  planner_returned_def planner_threw_def

lemmas run_defs =
  fresh_run_def run_def hookup_def hookupEdges_def initialEdges_def initialNodes_def
  findNodesWithNoIncomingEdges_def loop_dispatch_def loop_iteration_def isGoalReached_def
  rootPlanId_def nodeA_def nodeB_def planA_def planAB_def emptyPlan_def fresh_executor_def
  first_started_def first_started_aborted_def dispatched_A_def TaskExecutor_startFirstTask_def

text \<open>
  C1. For every graph and every state of the run: when a pass of the scheduling loop
  hands a node to the task executor, every edge of the graph whose target is that node
  has its source id in completedTasks at that moment. The loop never dispatches a
  node with a predecessor outside completedTasks.
\<close>

theorem loop_dispatches_only_ready_nodes:
  assumes "control m = Scheduling dag toDoNodes"
    and "task \<in> set (loop_dispatch e m)"
  shows "\<forall>edge \<in> set (edges dag). tId edge = node_id task \<longrightarrow> sId edge \<in> completedTasks m"
proof -
  from assms(2) obtain dag' toDoNodes' rest where
    h: "control m = Scheduling dag' toDoNodes'" "loop_iteration dag' toDoNodes' m = Dispatch task rest"
    using loop_dispatch_cases by blast
  with assms(1) have "loop_iteration dag toDoNodes m = Dispatch task rest" by simp
  from loop_iteration_Dispatch(3) [OF this] show ?thesis
    by (simp add: list_all_iff)
qed

text \<open>
  The theorem on the graph of plan \<open>A \<rightarrow> B\<close> right after planning: the first
  pass dispatches \<open>A\<close>, whose only incoming edge comes from the root.
\<close>

theorem loop_dispatches_only_ready_nodes_witness:
  "control (step (PlannerReturns planAB) fresh_run) =
     Scheduling (hookup ''g'' planAB) (nodes (hookup ''g'' planAB))
   \<and> nodeA \<in> set (loop_dispatch LoopIteration (step (PlannerReturns planAB) fresh_run))
   \<and> list_all (\<lambda>edge. sId edge \<in> completedTasks (step (PlannerReturns planAB) fresh_run))
       (filter (\<lambda>edge. tId edge = node_id nodeA) (edges (hookup ''g'' planAB)))
   \<and> edges (hookup ''g'' planAB) =
       [\<lparr>sId = ''1-1'', tId = ''1-2''\<rparr>, \<lparr>sId = rootPlanId, tId = ''1-1''\<rparr>]"
proof -
  have h1: "control (step (PlannerReturns planAB) fresh_run) =
     Scheduling (hookup ''g'' planAB) (nodes (hookup ''g'' planAB))"
    by (simp add: run_defs callback_defs Let_def)
  have h2: "nodeA \<in> set (loop_dispatch LoopIteration (step (PlannerReturns planAB) fresh_run))"
    by (simp add: run_defs callback_defs Let_def)
  have h3: "edges (hookup ''g'' planAB) =
       [\<lparr>sId = ''1-1'', tId = ''1-2''\<rparr>, \<lparr>sId = rootPlanId, tId = ''1-1''\<rparr>]"
    by (simp add: run_defs)
  from loop_dispatches_only_ready_nodes [OF h1 h2] h1 h2 h3 show ?thesis
    by (simp add: list_all_iff)
qed

section \<open>completedTasks only grows\<close>

lemma step_completedTasks_mono:
  "x \<in> completedTasks m \<Longrightarrow> x \<in> completedTasks (step e m)"
  by (cases e)
     (auto simp: callback_defs Let_def
        split: option.splits if_splits LoopOutcome.splits BaseResultType.splits
          Control.splits list.splits)

lemma exec_completedTasks_mono:
  "x \<in> completedTasks m \<Longrightarrow> x \<in> completedTasks (exec evs m)"
  by (induction evs arbitrary: m) (auto simp: step_completedTasks_mono)

lemma completed_not_dispatched_step:
  "x \<in> completedTasks m \<Longrightarrow> task \<in> set (loop_dispatch e m) \<Longrightarrow> node_id task \<noteq> x"
  using loop_dispatch_cases loop_iteration_Dispatch(2) by blast

lemma completed_never_dispatched:
  "x \<in> completedTasks m \<Longrightarrow> x \<notin> node_id ` set (dispatched evs m)"
proof (induction evs arbitrary: m)
  case Nil
  then show ?case by simp
next
  case (Cons e evs)
  from Cons.prems have "x \<in> completedTasks (step e m)"
    by (rule step_completedTasks_mono)
  then have "x \<notin> node_id ` set (dispatched evs (step e m))"
    by (rule Cons.IH)
  moreover from Cons.prems have "x \<notin> node_id ` set (loop_dispatch e m)"
    using completed_not_dispatched_step by blast
  ultimately show ?case by (simp add: image_Un)
qed

lemma startFirstTask_claims:
  "node_id task \<in> completedTasks (startFirstTask task dag m)"
  by (simp add: startFirstTask_def setFirstTaskState_def Let_def)

text \<open>
  C6. When the planner starts the optimistic first task on a node, the node's id is in
  completedTasks from then on, and whatever events follow (the execution resolving or
  rejecting, the planner returning, loop passes, an abort), no pass of the scheduling
  loop ever dispatches a node with that id.
\<close>

theorem optimistic_task_never_redispatched:
  assumes "control m = Planning"
  shows "node_id task \<in> completedTasks (step (PlannerStartsFirstTask task dag) m)
         \<and> (\<forall>evs. node_id task \<notin>
               node_id ` set (dispatched evs (step (PlannerStartsFirstTask task dag) m)))"
proof -
  from assms have "node_id task \<in> completedTasks (step (PlannerStartsFirstTask task dag) m)"
    by (simp add: startFirstTask_claims)
  then show ?thesis
    using completed_never_dispatched by blast
qed

text \<open>
  The theorem for the first task \<open>A\<close> of plan \<open>A \<rightarrow> B\<close>; in the run where
  the first task fails while the loop sleeps, the loop then dispatches \<open>B\<close> and
  nothing else.
\<close>

theorem optimistic_task_never_redispatched_witness:
  "control fresh_run = Planning
   \<and> node_id nodeA \<in> completedTasks (step (PlannerStartsFirstTask nodeA planA) fresh_run)
   \<and> (\<forall>evs. node_id nodeA \<notin>
         node_id ` set (dispatched evs (step (PlannerStartsFirstTask nodeA planA) fresh_run)))
   \<and> dispatched [PlannerReturns planAB, LoopIteration,
                  FirstTaskRejects nodeA planA ''Error: boom'', LoopIteration, LoopIteration]
        (step (PlannerStartsFirstTask nodeA planA) fresh_run) = [nodeB]"
proof -
  have h: "control fresh_run = Planning" by (simp add: run_defs)
  have d: "dispatched [PlannerReturns planAB, LoopIteration,
                  FirstTaskRejects nodeA planA ''Error: boom'', LoopIteration, LoopIteration]
        (step (PlannerStartsFirstTask nodeA planA) fresh_run) = [nodeB]"
    by (simp add: run_defs callback_defs Let_def)
  from optimistic_task_never_redispatched [OF h, of nodeA planA] h d show ?thesis by blast
qed

section \<open>The loop while the first task is started\<close>

text \<open>
  C9 as stated fails when the abort signal is set: with the first task started and
  plan \<open>A \<rightarrow> B\<close> hooked up, the first pass of the loop sleeps; the signal is
  aborted meanwhile, and the next pass does not sleep: it throws
  \<^verbatim>\<open>Signal aborted\<close> and the run rejects.
\<close>

theorem started_first_task_throws_on_abort:
  "control first_started_aborted =
     Scheduling (hookup ''g'' planAB) (nodes (hookup ''g'' planAB))
   \<and> firstTaskState (optimisticFirstTaskState first_started_aborted) = FTS_started
   \<and> step LoopIteration first_started_aborted \<noteq> first_started_aborted
   \<and> control (step LoopIteration first_started_aborted) = Settled (Rejected ''Signal aborted'')"
  by (simp add: run_defs callback_defs Let_def)

text \<open>
  C9, amended. While the state of the optimistic first task is started, no event makes
  the scheduling loop dispatch a node. A pass of the loop (the goal is not reached)
  on which the abort signal is not set sleeps and leaves the state as it is; a pass on
  which the abort signal is set throws \<^verbatim>\<open>Signal aborted\<close> and the run rejects.
\<close>

theorem started_first_task_blocks_dispatch:
  assumes "control m = Scheduling dag toDoNodes"
    and "firstTaskState (optimisticFirstTaskState m) = FTS_started"
  shows "loop_dispatch e m = []
         \<and> (\<not> isGoalReached dag (completedTasks m) \<and> \<not> aborted m \<longrightarrow>
              loop_iteration dag toDoNodes m = Sleep \<and> step LoopIteration m = m)
         \<and> (\<not> isGoalReached dag (completedTasks m) \<and> aborted m \<longrightarrow>
              loop_iteration dag toDoNodes m = Throw ''Signal aborted''
              \<and> control (step LoopIteration m) = Settled (Rejected ''Signal aborted''))"
proof -
  have a: "loop_dispatch e m = []"
  proof (rule ccontr)
    assume "loop_dispatch e m \<noteq> []"
    then obtain task where "task \<in> set (loop_dispatch e m)"
      by (cases "loop_dispatch e m") auto
    then obtain dag' toDoNodes' rest where
      "loop_iteration dag' toDoNodes' m = Dispatch task rest"
      using loop_dispatch_cases by blast
    from loop_iteration_Dispatch(4) [OF this] assms(2) show False by simp
  qed
  have b: "\<not> isGoalReached dag (completedTasks m) \<and> \<not> aborted m \<longrightarrow>
              loop_iteration dag toDoNodes m = Sleep \<and> step LoopIteration m = m"
    using assms by (simp add: loop_iteration_def Let_def)
  have c: "\<not> isGoalReached dag (completedTasks m) \<and> aborted m \<longrightarrow>
              loop_iteration dag toDoNodes m = Throw ''Signal aborted''
              \<and> control (step LoopIteration m) = Settled (Rejected ''Signal aborted'')"
    using assms by (simp add: loop_iteration_def Let_def)
  from a b c show ?thesis by blast
qed

text \<open>
  The theorem after the first task \<open>A\<close> was started and plan \<open>A \<rightarrow> B\<close>
  returned, without and with an abort.
\<close>

theorem started_first_task_blocks_dispatch_witness:
  "control first_started =
     Scheduling (hookup ''g'' planAB) (nodes (hookup ''g'' planAB))
   \<and> firstTaskState (optimisticFirstTaskState
        first_started) = FTS_started
   \<and> \<not> isGoalReached (hookup ''g'' planAB)
        (completedTasks first_started)
   \<and> \<not> aborted first_started
   \<and> loop_dispatch LoopIteration
        first_started = []
   \<and> step LoopIteration first_started
       = first_started
   \<and> control first_started_aborted =
     Scheduling (hookup ''g'' planAB) (nodes (hookup ''g'' planAB))
   \<and> firstTaskState (optimisticFirstTaskState
        first_started_aborted) = FTS_started
   \<and> \<not> isGoalReached (hookup ''g'' planAB)
        (completedTasks first_started_aborted)
   \<and> aborted first_started_aborted
   \<and> loop_iteration (hookup ''g'' planAB) (nodes (hookup ''g'' planAB))
        first_started_aborted
       = Throw ''Signal aborted''"
proof -
  let ?m = "first_started"
  let ?n = "first_started_aborted"
  let ?G = "hookup ''g'' planAB"
  have m1: "control ?m = Scheduling ?G (nodes ?G)"
    by (simp add: run_defs callback_defs Let_def)
  have m2: "firstTaskState (optimisticFirstTaskState ?m) = FTS_started"
    by (simp add: run_defs callback_defs Let_def)
  have m3: "\<not> isGoalReached ?G (completedTasks ?m)"
    by (simp add: run_defs callback_defs Let_def)
  have m4: "\<not> aborted ?m"
    by (simp add: run_defs callback_defs Let_def)
  have n1: "control ?n = Scheduling ?G (nodes ?G)"
    by (simp add: run_defs callback_defs Let_def)
  have n2: "firstTaskState (optimisticFirstTaskState ?n) = FTS_started"
    by (simp add: run_defs callback_defs Let_def)
  have n3: "\<not> isGoalReached ?G (completedTasks ?n)"
    by (simp add: run_defs callback_defs Let_def)
  have n4: "aborted ?n"
    by (simp add: run_defs callback_defs Let_def)
  from started_first_task_blocks_dispatch [OF m1 m2, of LoopIteration]
       started_first_task_blocks_dispatch [OF n1 n2, of LoopIteration]
       m1 m2 m3 m4 n1 n2 n3 n4
  show ?thesis by blast
qed

section \<open>Failure of a dispatched task\<close>




section \<open>Resuming a planned run\<close>

text \<open>
  C8 as stated fails for a graph that has nodes and no edge: the graph a run builds
  from a plan without nodes holds the root node only, and with
  \<^verbatim>\<open>isDonePlanning\<close> set \<^verbatim>\<open>run\<close> still calls the planner on it.
\<close>

theorem done_graph_without_edges_is_replanned:
  "map node_id (nodes (hookup ''g'' emptyPlan)) = [rootPlanId]
   \<and> edges (hookup ''g'' emptyPlan) = []
   \<and> control (run ''g'' (hookup ''g'' emptyPlan) True False) = Planning"
  by (simp add: run_defs)

text \<open>
  C8, amended. If \<^verbatim>\<open>run\<close> is invoked with an initial graph that has at least
  one edge and with \<^verbatim>\<open>isDonePlanning\<close> set, it does not call the planner: it
  enters the scheduling loop on the supplied graph at once, having sent no packet,
  and no later event brings it to planning.
\<close>

theorem resume_skips_planner:
  assumes "edges initDAG \<noteq> []"
  shows "control (run g initDAG True ab) = Scheduling initDAG (nodes initDAG)
         \<and> sentPackets (run g initDAG True ab) = []
         \<and> (\<forall>evs. control (exec evs (run g initDAG True ab)) \<noteq> Planning)"
proof -
  from assms have a: "control (run g initDAG True ab) = Scheduling initDAG (nodes initDAG)"
    by (simp add: run_def)
  have b: "sentPackets (run g initDAG True ab) = []"
    by (simp add: run_def Let_def)
  from a have "control (run g initDAG True ab) \<noteq> Planning" by simp
  then have "\<forall>evs. control (exec evs (run g initDAG True ab)) \<noteq> Planning"
    using exec_not_planning by blast
  with a b show ?thesis by blast
qed

text \<open>The theorem for the hooked-up graph of plan \<open>A \<rightarrow> B\<close>.\<close>

theorem resume_skips_planner_witness:
  "edges (hookup ''g'' planAB) \<noteq> []
   \<and> control (run ''g'' (hookup ''g'' planAB) True False) =
       Scheduling (hookup ''g'' planAB) (nodes (hookup ''g'' planAB))
   \<and> (\<forall>evs. control (exec evs (run ''g'' (hookup ''g'' planAB) True False)) \<noteq> Planning)"
proof -
  have h: "edges (hookup ''g'' planAB) \<noteq> []"
    by (simp add: run_defs)
  from resume_skips_planner [OF h, of "''g''" False] h show ?thesis by blast
qed

section \<open>Failure of the optimistic first task\<close>

text \<open>
  C7 as stated fails in \<^verbatim>\<open>TaskExecutor.startFirstTask\<close>: when the execution
  rejects, its catch block calls \<^verbatim>\<open>abortController.abort()\<close>.
\<close>

theorem TaskExecutor_first_task_failure_aborts:
  "\<not> te_aborted fresh_executor
   \<and> te_aborted (TaskExecutor_startFirstTask nodeA (Execute_rejects ''boom'') fresh_executor)"
  by (simp add: run_defs)

text \<open>
  C7, amended. When the execution of the optimistic first task fails, a warn-severity
  error packet is emitted for the node and the attempt is marked failed. In
  \<^verbatim>\<open>WaggleDanceMachine.run\<close> that is all: the first-task state becomes error,
  the abort signal, the control of the run and completedTasks are unchanged. In
  \<^verbatim>\<open>TaskExecutor.startFirstTask\<close> the first-task promise is rejected with the
  message and the abort controller is then aborted.
\<close>

theorem first_task_failure:
  assumes "(task, dag) \<in> set (firstTasksPending m)"
    and "\<not> te_aborted s"
  shows "sentPackets (step (FirstTaskRejects task dag err) m) =
           sentPackets m @ [(P_error Warn err, task)]
         \<and> firstTaskState (optimisticFirstTaskState (step (FirstTaskRejects task dag err) m)) = FTS_error
         \<and> aborted (step (FirstTaskRejects task dag err) m) = aborted m
         \<and> control (step (FirstTaskRejects task dag err) m) = control m
         \<and> completedTasks (step (FirstTaskRejects task dag err) m) = completedTasks m
         \<and> te_injected (TaskExecutor_startFirstTask task (Execute_rejects err) s) =
             te_injected s @ [(P_error Warn err, task)]
         \<and> te_firstTask (TaskExecutor_startFirstTask task (Execute_rejects err) s) =
             te_firstTask s @ [RejectFirstTask err]
         \<and> te_aborted (TaskExecutor_startFirstTask task (Execute_rejects err) s)"
  using assms
  by (simp add: startFirstTask_rejected_def setFirstTaskState_def sendChainPacket_def
        TaskExecutor_startFirstTask_def)

text \<open>The theorem for the first task \<open>A\<close> of a fresh run and a fresh executor.\<close>

theorem first_task_failure_witness:
  "(nodeA, planA) \<in> set (firstTasksPending (step (PlannerStartsFirstTask nodeA planA) fresh_run))
   \<and> \<not> te_aborted fresh_executor
   \<and> sentPackets (step (FirstTaskRejects nodeA planA ''Error: boom'')
        (step (PlannerStartsFirstTask nodeA planA) fresh_run)) =
       sentPackets (step (PlannerStartsFirstTask nodeA planA) fresh_run)
         @ [(P_error Warn ''Error: boom'', nodeA)]
   \<and> firstTaskState (optimisticFirstTaskState (step (FirstTaskRejects nodeA planA ''Error: boom'')
        (step (PlannerStartsFirstTask nodeA planA) fresh_run))) = FTS_error
   \<and> aborted (step (FirstTaskRejects nodeA planA ''Error: boom'')
        (step (PlannerStartsFirstTask nodeA planA) fresh_run)) =
       aborted (step (PlannerStartsFirstTask nodeA planA) fresh_run)
   \<and> \<not> aborted (step (PlannerStartsFirstTask nodeA planA) fresh_run)
   \<and> te_aborted (TaskExecutor_startFirstTask nodeA (Execute_rejects ''Error: boom'') fresh_executor)"
proof -
  have h1: "(nodeA, planA) \<in>
      set (firstTasksPending (step (PlannerStartsFirstTask nodeA planA) fresh_run))"
    by (simp add: run_defs callback_defs Let_def)
  have h2: "\<not> te_aborted fresh_executor"
    by (simp add: run_defs)
  have h3: "\<not> aborted (step (PlannerStartsFirstTask nodeA planA) fresh_run)"
    by (simp add: run_defs callback_defs Let_def)
  from first_task_failure [OF h1 h2, of "''Error: boom''"] h1 h2 h3
  show ?thesis by blast
qed

section \<open>The first task under an abort signal that is already set\<close>

lemma step_aborted: "aborted m \<Longrightarrow> aborted (step e m)"
  by (cases e)
     (auto simp: callback_defs Let_def
        split: option.splits if_splits LoopOutcome.splits BaseResultType.splits
          Control.splits list.splits)

lemma step_unwritten:
  assumes "aborted m" and "taskResults m x = None"
    and "list_all (\<lambda>p. node_id (fst p) \<noteq> x) (firstTasksPending m)"
    and "list_all (\<lambda>t. node_id t \<noteq> x) (tasksPending m)"
  shows "taskResults (step e m) x = None
         \<and> list_all (\<lambda>p. node_id (fst p) \<noteq> x) (firstTasksPending (step e m))
         \<and> list_all (\<lambda>t. node_id t \<noteq> x) (tasksPending (step e m))"
proof (cases e)
  case LoopIteration
  with assms show ?thesis
    by (auto simp: loop_iteration_aborted split: Control.splits LoopOutcome.splits)
qed (use assms in \<open>auto simp: callback_defs Let_def list_all_iff
        split: option.splits if_splits BaseResultType.splits Control.splits list.splits
        dest: set_remove1_subset [THEN subsetD]\<close>)

lemma exec_unwritten:
  assumes "aborted m" and "taskResults m x = None"
    and "list_all (\<lambda>p. node_id (fst p) \<noteq> x) (firstTasksPending m)"
    and "list_all (\<lambda>t. node_id t \<noteq> x) (tasksPending m)"
  shows "taskResults (exec evs m) x = None"
  using assms
proof (induction evs arbitrary: m)
  case Nil
  then show ?case by simp
next
  case (Cons e evs)
  from step_unwritten [OF Cons.prems] step_aborted [OF Cons.prems(1)]
  have "taskResults (exec evs (step e m)) x = None"
    using Cons.IH by blast
  then show ?case by simp
qed

text \<open>
  C10. \<^verbatim>\<open>startFirstTask\<close> adds the node's id to completedTasks before it reads
  the abort signal. When the signal is already set, the id is in completedTasks
  although \<^verbatim>\<open>executeTask\<close> is not called and taskResults is not written, and
  the id stays in completedTasks whatever happens next; if no result and no pending
  execution existed for the id, no result is ever written for it. The same holds of
  \<^verbatim>\<open>TaskExecutor.startFirstTask\<close>: the id is added, the executor is not called
  and no packet is injected. In both functions the id is added in every state,
  aborted or not.
\<close>

theorem aborted_first_task_stays_completed:
  assumes "control m = Planning" and "aborted m" and "te_aborted s"
  shows "node_id task \<in> completedTasks (step (PlannerStartsFirstTask task dag) m)
         \<and> firstTasksPending (step (PlannerStartsFirstTask task dag) m) = firstTasksPending m
         \<and> taskResults (step (PlannerStartsFirstTask task dag) m) = taskResults m
         \<and> (\<forall>evs. node_id task \<in>
               completedTasks (exec evs (step (PlannerStartsFirstTask task dag) m)))
         \<and> (taskResults m (node_id task) = None
              \<and> list_all (\<lambda>p. node_id (fst p) \<noteq> node_id task) (firstTasksPending m)
              \<and> list_all (\<lambda>t. node_id t \<noteq> node_id task) (tasksPending m) \<longrightarrow>
            (\<forall>evs. taskResults (exec evs (step (PlannerStartsFirstTask task dag) m))
                     (node_id task) = None))
         \<and> node_id task \<in> te_completedTasks (TaskExecutor_startFirstTask task outcome s)
         \<and> te_executeCalls (TaskExecutor_startFirstTask task outcome s) = te_executeCalls s
         \<and> te_injected (TaskExecutor_startFirstTask task outcome s) = te_injected s
         \<and> (\<forall>m'. node_id task \<in> completedTasks (startFirstTask task dag m'))
         \<and> (\<forall>s' outcome'. node_id task \<in>
               te_completedTasks (TaskExecutor_startFirstTask task outcome' s'))"
proof -
  let ?m' = "step (PlannerStartsFirstTask task dag) m"
  from assms(1) have a: "node_id task \<in> completedTasks ?m'"
    by (simp add: startFirstTask_claims)
  then have a': "\<forall>evs. node_id task \<in> completedTasks (exec evs ?m')"
    using exec_completedTasks_mono by blast
  from assms(1,2) have b: "firstTasksPending ?m' = firstTasksPending m"
    "taskResults ?m' = taskResults m" "tasksPending ?m' = tasksPending m" "aborted ?m'"
    by (simp_all add: startFirstTask_def setFirstTaskState_def Let_def)
  have c: "taskResults m (node_id task) = None
              \<and> list_all (\<lambda>p. node_id (fst p) \<noteq> node_id task) (firstTasksPending m)
              \<and> list_all (\<lambda>t. node_id t \<noteq> node_id task) (tasksPending m) \<longrightarrow>
            (\<forall>evs. taskResults (exec evs ?m') (node_id task) = None)"
    using exec_unwritten [of ?m' "node_id task"] b by simp
  from assms(3) have d: "node_id task \<in> te_completedTasks (TaskExecutor_startFirstTask task outcome s)"
    "te_executeCalls (TaskExecutor_startFirstTask task outcome s) = te_executeCalls s"
    "te_injected (TaskExecutor_startFirstTask task outcome s) = te_injected s"
    by (simp_all add: TaskExecutor_startFirstTask_def)
  have e: "\<forall>m'. node_id task \<in> completedTasks (startFirstTask task dag m')"
    by (simp add: startFirstTask_claims)
  have f: "\<forall>s' outcome'. node_id task \<in>
               te_completedTasks (TaskExecutor_startFirstTask task outcome' s')"
    by (simp add: TaskExecutor_startFirstTask_def Let_def split: ExecuteOutcome.splits)
  from a a' b(1,2) c d e f show ?thesis by blast
qed

text \<open>
  The theorem for the first task \<open>A\<close> in a fresh run that was aborted, and in
  an executor whose signal is aborted.
\<close>

theorem aborted_first_task_stays_completed_witness:
  "control (step Abort fresh_run) = Planning
   \<and> aborted (step Abort fresh_run)
   \<and> te_aborted (fresh_executor\<lparr>te_aborted := True\<rparr>)
   \<and> taskResults (step Abort fresh_run) (node_id nodeA) = None
   \<and> list_all (\<lambda>p. node_id (fst p) \<noteq> node_id nodeA) (firstTasksPending (step Abort fresh_run))
   \<and> list_all (\<lambda>t. node_id t \<noteq> node_id nodeA) (tasksPending (step Abort fresh_run))
   \<and> node_id nodeA \<in> completedTasks (step (PlannerStartsFirstTask nodeA planA) (step Abort fresh_run))
   \<and> firstTasksPending (step (PlannerStartsFirstTask nodeA planA) (step Abort fresh_run)) = []
   \<and> (\<forall>evs. node_id nodeA \<in>
         completedTasks (exec evs (step (PlannerStartsFirstTask nodeA planA) (step Abort fresh_run))))
   \<and> (\<forall>evs. taskResults (exec evs (step (PlannerStartsFirstTask nodeA planA) (step Abort fresh_run)))
               (node_id nodeA) = None)
   \<and> node_id nodeA \<in> te_completedTasks
        (TaskExecutor_startFirstTask nodeA (Execute_resolves (P_done ''ok''))
           (fresh_executor\<lparr>te_aborted := True\<rparr>))
   \<and> te_executeCalls
        (TaskExecutor_startFirstTask nodeA (Execute_resolves (P_done ''ok''))
           (fresh_executor\<lparr>te_aborted := True\<rparr>)) = []
   \<and> node_id nodeA \<in> te_completedTasks
        (TaskExecutor_startFirstTask nodeA (Execute_resolves (P_done ''ok'')) fresh_executor)
   \<and> node_id nodeA \<in> completedTasks (startFirstTask nodeA planA fresh_run)"
proof -
  let ?m = "step Abort fresh_run"
  let ?s = "fresh_executor\<lparr>te_aborted := True\<rparr>"
  have h1: "control ?m = Planning" by (simp add: run_defs)
  have h2: "aborted ?m" by (simp add: run_defs)
  have h3: "te_aborted ?s" by simp
  have h4: "taskResults ?m (node_id nodeA) = None" by (simp add: run_defs)
  have h5: "list_all (\<lambda>p. node_id (fst p) \<noteq> node_id nodeA) (firstTasksPending ?m)"
    by (simp add: run_defs)
  have h6: "list_all (\<lambda>t. node_id t \<noteq> node_id nodeA) (tasksPending ?m)"
    by (simp add: run_defs)
  have e1: "firstTasksPending ?m = []" by (simp add: run_defs)
  have e2: "te_executeCalls ?s = []" by (simp add: run_defs)
  from aborted_first_task_stays_completed [OF h1 h2 h3, of nodeA planA "Execute_resolves (P_done ''ok'')"]
       h1 h2 h3 h4 h5 h6 e1 e2
  show ?thesis by simp
qed

end
